theory Spec2Isabelle
  imports Main "HOL-Library.AList"
begin

section \<open>The PayPal payment provider of medusa-paypal-payment\<close>

text \<open>
  A shallow embedding of \<^verbatim>\<open>src/providers/paypal-payment/service.ts\<close>: the class
  \<^verbatim>\<open>PaypalPaymentProviderService\<close>. Every \<^verbatim>\<open>async\<close> method awaits its remote calls one
  after the other, so a method is a function from the world before the call to its result
  and the world after it. A \<^verbatim>\<open>throw\<close> is the left injection of the result.
\<close>

subsection \<open>The remote order, as the SDK types it\<close>

text \<open>
  \<^verbatim>\<open>OrderStatus\<close> of the PayPal SDK. The field is a string on the wire: \<open>Unrecognized\<close> holds
  a status string that is none of the six members of the enumeration.
\<close>

datatype PaypalOrderStatus =
    Created
  | Saved
  | Approved
  | Voided
  | Completed
  | PayerActionRequired
  | Unrecognized string

record Authorization =
  authorization_id :: "string option"

record Capture =
  capture_id :: "string option"

record PaymentCollection =
  authorizations :: "Authorization list option"
  captures :: "Capture list option"

record Money =
  currencyCode :: string
  money_value :: string

record PurchaseUnit =
  amount :: "Money option"
  invoiceId :: "string option"
  payments :: "PaymentCollection option"

record PaypalOrder =
  order_id :: "string option"
  status :: "PaypalOrderStatus option"
  purchaseUnits :: "PurchaseUnit list option"

subsection \<open>The framework's objects\<close>

text \<open>
  The inputs and outputs of the framework are plain JavaScript objects whose \<^verbatim>\<open>data\<close> is a
  \<^verbatim>\<open>Record<string, unknown>\<close>. An object is an association list from keys to values, in
  insertion order; the remote order is the one value the adapter looks into, and keeps
  its SDK type.
\<close>

datatype jvalue =
    JUndefined
  | JNull
  | JBool bool
  | JNumber int
  | JString string
  | JOrder PaypalOrder
  | JObject "(string \<times> jvalue) list"

type_synonym jobject = "(string \<times> jvalue) list"

text \<open>\<^verbatim>\<open>PaymentSessionStatus\<close> of the framework.\<close>

datatype PaymentSessionStatus =
    authorized
  | captured
  | pending
  | requires_more
  | error
  | canceled

subsection \<open>Exceptions, the remote service and the logger\<close>

text \<open>
  What a call of the SDK can reject with: an \<^verbatim>\<open>ApiError\<close>, which carries a status code and
  headers, or anything else (a transport or validation failure).
\<close>

datatype remote_failure =
    ApiError int "(string \<times> string) list"
  | OtherFailure

text \<open>
  What can be in flight as a JavaScript exception: \<^verbatim>\<open>new Error(message)\<close>,
  \<^verbatim>\<open>new MedusaError(INVALID_DATA, message)\<close>, the runtime's \<^verbatim>\<open>TypeError\<close> for a property read
  on \<^verbatim>\<open>undefined\<close>, and a rejection of the SDK.
\<close>

datatype thrown =
    Error string
  | MedusaError string
  | TypeError
  | Rejected remote_failure

text \<open>
  The requests the adapter sends through \<^verbatim>\<open>OrdersController\<close> and \<^verbatim>\<open>PaymentsController\<close>,
  with the arguments it passes. An identifier read from an absent field is \<open>None\<close>.
\<close>

datatype remote_call =
    CreateOrder jvalue
  | GetOrder "string option"
  | PatchOrder "string option" jvalue
  | CaptureAuthorizedPayment "string option"
  | RefundCapturedPayment "string option" "jvalue option"
  | VoidPayment "string option"

datatype log_entry =
    LogStatusCode int
  | LogHeaders "(string \<times> string) list"
  | LogError thrown

text \<open>
  The world an operation runs in: the requests sent so far and the lines given to
  \<^verbatim>\<open>logger_.error\<close>, both oldest first.
\<close>

record world =
  calls :: "remote_call list"
  logs :: "log_entry list"

text \<open>
  The client handle \<^verbatim>\<open>this.paypal_\<close>: the remote service answers a request, knowing the
  requests before it, with a rejection or a response body. The adapter reads the body of
  \<^verbatim>\<open>createOrder\<close> and \<^verbatim>\<open>getOrder\<close> only, which is an order.
\<close>

type_synonym sdk = "remote_call list \<Rightarrow> remote_call \<Rightarrow> remote_failure + PaypalOrder"

definition send :: "sdk \<Rightarrow> world \<Rightarrow> remote_call \<Rightarrow> (remote_failure + PaypalOrder) \<times> world" where
  "send paypal w c = (paypal (calls w) c, w\<lparr>calls := calls w @ [c]\<rparr>)"

definition logError :: "world \<Rightarrow> log_entry list \<Rightarrow> world" where
  "logError w ls = w\<lparr>logs := logs w @ ls\<rparr>"

subsection \<open>Reading JavaScript values\<close>

text \<open>A string in a condition: \<^verbatim>\<open>undefined\<close> and the empty string are falsy.\<close>

definition truthy :: "string option \<Rightarrow> bool" where
  "truthy s = (case s of None \<Rightarrow> False | Some v \<Rightarrow> v \<noteq> [])"

definition ofString :: "string option \<Rightarrow> jvalue" where
  "ofString s = (case s of None \<Rightarrow> JUndefined | Some v \<Rightarrow> JString v)"

text \<open>
  \<^verbatim>\<open>d.paypalOrder as PaypalOrder\<close> for a data object \<open>d\<close>. The cast is taken at its word: the
  key holds an order, or nothing that has the fields of one; \<open>None\<close> is the value whose
  property reads raise a \<^verbatim>\<open>TypeError\<close>.
\<close>

definition paypalOrderOf :: "jobject \<Rightarrow> PaypalOrder option" where
  "paypalOrderOf d = (case map_of d ''paypalOrder'' of Some (JOrder ord) \<Rightarrow> Some ord | _ \<Rightarrow> None)"

text \<open>\<^verbatim>\<open>paymentData.data!.paypalOrder as PaypalOrder\<close> for an input object.\<close>

definition embeddedOrder :: "jobject \<Rightarrow> PaypalOrder option" where
  "embeddedOrder paymentData =
     (case map_of paymentData ''data'' of Some (JObject d) \<Rightarrow> paypalOrderOf d | _ \<Rightarrow> None)"

text \<open>\<^verbatim>\<open>pu.payments?.captures?.length\<close> as a condition.\<close>

definition hasCaptures :: "PurchaseUnit \<Rightarrow> bool" where
  "hasCaptures pu =
     (case payments pu of
        None \<Rightarrow> False
      | Some p \<Rightarrow> (case captures p of None \<Rightarrow> False | Some cs \<Rightarrow> cs \<noteq> []))"

subsection \<open>Construction and validation of the options\<close>

record Options =
  oAuthClientId :: "string option"
  oAuthClientSecret :: "string option"
  environment :: "string option"

datatype Environment = Sandbox | Production

text \<open>The configuration the constructor hands to \<^verbatim>\<open>new PaypalClient\<close>.\<close>

record PaypalClient =
  client_oAuthClientId :: "string option"
  client_oAuthClientSecret :: "string option"
  client_timeout :: nat
  client_environment :: Environment

definition constructor :: "Options \<Rightarrow> thrown + PaypalClient" where
  "constructor options =
     (if truthy (oAuthClientId options) \<and> truthy (oAuthClientSecret options)
         \<and> truthy (environment options)
      then Inr \<lparr>client_oAuthClientId = oAuthClientId options,
                client_oAuthClientSecret = oAuthClientSecret options,
                client_timeout = 0,
                client_environment =
                  (if environment options = Some ''sandbox'' then Sandbox else Production)\<rparr>
      else Inl (MedusaError
        ''oAuthClientId, oAuthClientSecret and environment are required in the provider's options.''))"

definition validateOptions :: "Options \<Rightarrow> thrown + unit" where
  "validateOptions options =
     (if \<not> truthy (oAuthClientId options)
      then Inl (MedusaError ''oAuthClientId is required in the provider's options.'')
      else if \<not> truthy (oAuthClientSecret options)
      then Inl (MedusaError ''oAuthClientSecret is required in the provider's options.'')
      else if environment options \<noteq> Some ''production'' \<and> environment options \<noteq> Some ''sandbox''
      then Inl (MedusaError ''environment needs to be either production or sandbox'')
      else Inr ())"

subsection \<open>The lifecycle operations\<close>

text \<open>
  An output object \<^verbatim>\<open>{ data: d }\<close> is represented by \<open>d\<close>. The object literal
  \<^verbatim>\<open>{ ...x, k: v }\<close> keeps the keys of \<open>x\<close> and sets \<open>k\<close>.
\<close>

definition retrievePayment :: "sdk \<Rightarrow> world \<Rightarrow> jobject \<Rightarrow> (thrown + jobject) \<times> world" where
  "retrievePayment paypal w paymentSessionData =
     (case embeddedOrder paymentSessionData of
        None \<Rightarrow> (Inl (Error ''Initialize payment failed.''), w)
      | Some paypalOrder \<Rightarrow>
          (case send paypal w (GetOrder (order_id paypalOrder)) of
             (Inl (ApiError statusCode headers), w1) \<Rightarrow>
               (Inl (Error ''Initialize payment failed''),
                logError w1 [LogStatusCode statusCode, LogHeaders headers])
           | (Inl OtherFailure, w1) \<Rightarrow> (Inl (Error ''Initialize payment failed.''), w1)
           | (Inr result, w1) \<Rightarrow>
               (if truthy (order_id result)
                then (Inr (AList.update ''paypalOrder'' (JOrder result)
                            (AList.update ''paypalOrderId'' (ofString (order_id result))
                               paymentSessionData)), w1)
                else (Inl (Error ''Initialize payment failed.''), w1))))"

text \<open>
  The body of a \<^verbatim>\<open>try\<close> shared by capture, cancel, refund and update: await one request,
  then \<^verbatim>\<open>return await this.retrievePayment(paymentData)\<close>. The result still carries what
  was thrown; each operation has its own \<^verbatim>\<open>catch\<close>.
\<close>

definition sendThenRetrieve ::
  "sdk \<Rightarrow> world \<Rightarrow> jobject \<Rightarrow> remote_call \<Rightarrow> (thrown + jobject) \<times> world" where
  "sendThenRetrieve paypal w paymentData c =
     (case send paypal w c of
        (Inl failure, w1) \<Rightarrow> (Inl (Rejected failure), w1)
      | (Inr _, w1) \<Rightarrow> retrievePayment paypal w1 paymentData)"

definition capturePayment :: "sdk \<Rightarrow> world \<Rightarrow> jobject \<Rightarrow> (thrown + jobject) \<times> world" where
  "capturePayment paypal w paymentData =
     (case embeddedOrder paymentData of
        None \<Rightarrow> (Inl TypeError, w)
      | Some paypalOrder \<Rightarrow>
          (case purchaseUnits paypalOrder of
             Some (pu0 # _) \<Rightarrow>
               (case payments pu0 of
                  Some payments0 \<Rightarrow>
                    (case authorizations payments0 of
                       Some (a0 # _) \<Rightarrow>
                         (case sendThenRetrieve paypal w paymentData
                                 (CaptureAuthorizedPayment (authorization_id a0)) of
                            (Inr out, w1) \<Rightarrow> (Inr out, w1)
                          | (Inl e, w1) \<Rightarrow>
                              (Inl (Error ''An error occurred in capturePayment''),
                               logError w1 [LogError e]))
                     | _ \<Rightarrow> (Inl (Error ''An error occurred in capturePayment''), w))
                | None \<Rightarrow> (Inl (Error ''An error occurred in capturePayment''), w))
           | _ \<Rightarrow> (Inl (Error ''An error occurred in capturePayment''), w)))"

definition getPaymentStatus ::
  "sdk \<Rightarrow> world \<Rightarrow> jobject \<Rightarrow> (thrown + PaymentSessionStatus) \<times> world" where
  "getPaymentStatus paypal w paymentData =
     (case retrievePayment paypal w paymentData of
        (Inl e, w1) \<Rightarrow> (Inl e, w1)
      | (Inr retrievedPayment, w1) \<Rightarrow>
          (case paypalOrderOf retrievedPayment of
             None \<Rightarrow> (Inl TypeError, w1)
           | Some paypalOrder \<Rightarrow>
               (case status paypalOrder of
                  Some Created \<Rightarrow> (Inr pending, w1)
                | Some Saved \<Rightarrow> (Inr requires_more, w1)
                | Some Approved \<Rightarrow> (Inr requires_more, w1)
                | Some PayerActionRequired \<Rightarrow> (Inr requires_more, w1)
                | Some Voided \<Rightarrow> (Inr canceled, w1)
                | Some Completed \<Rightarrow> (Inr authorized, w1)
                | _ \<Rightarrow> (Inr pending, w1))))"

definition authorizePayment ::
  "sdk \<Rightarrow> world \<Rightarrow> jobject \<Rightarrow> (thrown + jobject \<times> PaymentSessionStatus) \<times> world" where
  "authorizePayment paypal w paymentData =
     (case getPaymentStatus paypal w paymentData of
        (Inl e, w1) \<Rightarrow> (Inl (Error ''Authorize payment failed''), w1)
      | (Inr st, w1) \<Rightarrow>
          (case retrievePayment paypal w1 paymentData of
             (Inl e, w2) \<Rightarrow> (Inl (Error ''Authorize payment failed''), w2)
           | (Inr retrievedPayment, w2) \<Rightarrow>
               (case paypalOrderOf retrievedPayment of
                  None \<Rightarrow> (Inl (Error ''Authorize payment failed''), w2)
                | Some ord \<Rightarrow>
                    (Inr (AList.update ''paypalOrderId'' (ofString (order_id ord))
                            (AList.update ''paypalOrder'' (JOrder ord) paymentData), st), w2))))"

definition cancelPayment :: "sdk \<Rightarrow> world \<Rightarrow> jobject \<Rightarrow> (thrown + jobject) \<times> world" where
  "cancelPayment paypal w paymentData =
     (case embeddedOrder paymentData of
        None \<Rightarrow> (Inl TypeError, w)
      | Some paypalOrder \<Rightarrow>
          (case purchaseUnits paypalOrder of
             Some (pu0 # pus) \<Rightarrow>
               (case payments pu0 of
                  Some payments0 \<Rightarrow>
                    (if status paypalOrder = Some Voided
                        \<or> (status paypalOrder = Some Completed \<and> truthy (invoiceId pu0))
                     then retrievePayment paypal w paymentData
                     else
                       (case
                          (if list_ex hasCaptures (pu0 # pus)
                           then (case captures payments0 of
                                   Some (c0 # _) \<Rightarrow>
                                     sendThenRetrieve paypal w paymentData
                                       (RefundCapturedPayment (capture_id c0) None)
                                 | _ \<Rightarrow> (Inl TypeError, w))
                           else (case authorizations payments0 of
                                   Some (a0 # _) \<Rightarrow>
                                     sendThenRetrieve paypal w paymentData
                                       (VoidPayment (authorization_id a0))
                                 | _ \<Rightarrow> (Inl TypeError, w)))
                        of
                          (Inr out, w1) \<Rightarrow> (Inr out, w1)
                        | (Inl e, w1) \<Rightarrow>
                            (Inl (Error ''An error occurred in cancelPayment''), w1)))
                | None \<Rightarrow> (Inl (Error ''An error occurred in cancelPayment''), w))
           | _ \<Rightarrow> (Inl (Error ''An error occurred in cancelPayment''), w)))"

text \<open>
  \<^verbatim>\<open>convertAmount\<close> of \<^verbatim>\<open>./formatters\<close> is not part of the sources at hand: it is a
  parameter, taking the amount and the currency code and giving the body's amount.
  The output \<^verbatim>\<open>{ id, data }\<close> of \<^verbatim>\<open>initiatePayment\<close> is the pair of the two.
\<close>

definition initiatePayment ::
  "(jvalue option \<Rightarrow> jvalue option \<Rightarrow> jvalue) \<Rightarrow> sdk \<Rightarrow> world \<Rightarrow> jobject
     \<Rightarrow> (thrown + string \<times> jobject) \<times> world" where
  "initiatePayment convertAmount paypal w paymentData =
     (case send paypal w
             (CreateOrder (convertAmount (map_of paymentData ''amount'')
                                         (map_of paymentData ''currency_code''))) of
        (Inl (ApiError statusCode headers), w1) \<Rightarrow>
          (Inl (Error ''Initialize payment failed''),
           logError w1 [LogStatusCode statusCode, LogHeaders headers])
      | (Inl OtherFailure, w1) \<Rightarrow> (Inl (Error ''Initialize payment failed''), w1)
      | (Inr result, w1) \<Rightarrow>
          (case order_id result of
             None \<Rightarrow> (Inl (Error ''Initialize payment failed''), w1)
           | Some i \<Rightarrow>
               (if i \<noteq> []
                then (Inr (i, AList.update ''paypalOrder'' (JOrder result)
                                (AList.update ''paypalOrderId'' (JString i) paymentData)), w1)
                else (Inl (Error ''Initialize payment failed''), w1))))"

definition deletePayment :: "jobject \<Rightarrow> jobject" where
  "deletePayment paymentSessionData = paymentSessionData"

definition refundPayment ::
  "(jvalue option \<Rightarrow> jvalue option \<Rightarrow> jvalue) \<Rightarrow> sdk \<Rightarrow> world \<Rightarrow> jobject
     \<Rightarrow> (thrown + jobject) \<times> world" where
  "refundPayment convertAmount paypal w paymentData =
     (case embeddedOrder paymentData of
        None \<Rightarrow> (Inl TypeError, w)
      | Some paypalOrder \<Rightarrow>
          (case purchaseUnits paypalOrder of
             Some (purchaseUnit # pus) \<Rightarrow>
               (case payments purchaseUnit of
                  Some payments0 \<Rightarrow>
                    (if \<not> list_ex hasCaptures (purchaseUnit # pus)
                     then (Inl (Error ''Cannot refund an uncaptured payment''), w)
                     else
                       (case captures payments0 of
                          Some (c0 # _) \<Rightarrow>
                            (case sendThenRetrieve paypal w paymentData
                                    (RefundCapturedPayment (capture_id c0)
                                       (Some (convertAmount (map_of paymentData ''amount'')
                                                (map_option (\<lambda>m. JString (currencyCode m))
                                                   (amount purchaseUnit))))) of
                               (Inr out, w1) \<Rightarrow> (Inr out, w1)
                             | (Inl e, w1) \<Rightarrow>
                                 (Inl (Error ''An error occurred in refundPayment''),
                                  logError w1 [LogError e]))
                        | _ \<Rightarrow> (Inl TypeError, w)))
                | None \<Rightarrow> (Inl (Error ''An error occurred in refundPayment''), w))
           | _ \<Rightarrow> (Inl (Error ''An error occurred in refundPayment''), w)))"

definition updatePayment ::
  "(jvalue option \<Rightarrow> jvalue option \<Rightarrow> jvalue) \<Rightarrow> sdk \<Rightarrow> world \<Rightarrow> jobject
     \<Rightarrow> (thrown + jobject) \<times> world" where
  "updatePayment convertAmount paypal w context' =
     (case embeddedOrder context' of
        None \<Rightarrow>
          (Inl (Error ''An error occurred in updatePayment''), logError w [LogError TypeError])
      | Some paypalOrder \<Rightarrow>
          (case sendThenRetrieve paypal w context'
                  (PatchOrder (order_id paypalOrder)
                     (convertAmount (map_of context' ''amount'')
                                    (map_of context' ''currency_code''))) of
             (Inr out, w1) \<Rightarrow> (Inr out, w1)
           | (Inl e, w1) \<Rightarrow>
               (Inl (Error ''An error occurred in updatePayment''), logError w1 [LogError e])))"

subsection \<open>The status table of the specification\<close>

text \<open>
  The table of the specification, row by row: created gives pending; saved, approved and
  payer-action-required give requires_more; voided gives canceled; completed gives
  authorized; anything else gives pending.
\<close>

definition spec_status_table :: "PaypalOrderStatus option \<Rightarrow> PaymentSessionStatus" where
  "spec_status_table s =
     (if s = Some Created then pending
      else if s = Some Saved \<or> s = Some Approved \<or> s = Some PayerActionRequired
      then requires_more
      else if s = Some Voided then canceled
      else if s = Some Completed then authorized
      else pending)"

subsection \<open>Scenarios\<close>

text \<open>Concrete orders, sessions and remote services, on which the theorems are run.\<close>

definition fresh_world :: world where
  "fresh_world = \<lparr>calls = [], logs = []\<rparr>"

definition unit_of ::
  "string option \<Rightarrow> Authorization list option \<Rightarrow> Capture list option \<Rightarrow> PurchaseUnit" where
  "unit_of invoice auths caps =
     \<lparr>amount = Some \<lparr>currencyCode = ''USD'', money_value = ''10.00''\<rparr>,
      invoiceId = invoice,
      payments = Some \<lparr>authorizations = auths, captures = caps\<rparr>\<rparr>"

definition auth_A1 :: Authorization where
  "auth_A1 = \<lparr>authorization_id = Some ''A1''\<rparr>"

definition capture_C1 :: Capture where
  "capture_C1 = \<lparr>capture_id = Some ''C1''\<rparr>"

text \<open>Order O1: created, one authorization, no capture; and the same order once captured.\<close>

definition order_O1 :: PaypalOrder where
  "order_O1 = \<lparr>order_id = Some ''O1'', status = Some Created,
               purchaseUnits = Some [unit_of None (Some [auth_A1]) None]\<rparr>"

definition order_O1_captured :: PaypalOrder where
  "order_O1_captured = \<lparr>order_id = Some ''O1'', status = Some Completed,
               purchaseUnits = Some [unit_of None (Some [auth_A1]) (Some [capture_C1])]\<rparr>"

text \<open>Order O2: completed, one capture, no invoice identifier.\<close>

definition order_O2 :: PaypalOrder where
  "order_O2 = \<lparr>order_id = Some ''O2'', status = Some Completed,
               purchaseUnits = Some [unit_of None (Some [auth_A1]) (Some [capture_C1])]\<rparr>"

text \<open>Order O3: voided; and the copy the remote service holds of it by now.\<close>

definition order_O3 :: PaypalOrder where
  "order_O3 = \<lparr>order_id = Some ''O3'', status = Some Voided,
               purchaseUnits = Some [unit_of None (Some [auth_A1]) None]\<rparr>"

definition order_O3_remote :: PaypalOrder where
  "order_O3_remote = \<lparr>order_id = Some ''O3'', status = Some Voided,
               purchaseUnits = Some [unit_of (Some ''INV-7'') (Some [auth_A1]) None]\<rparr>"

text \<open>Order O4: approved, no capture; once with a purchase unit, once without any.\<close>

definition order_O4 :: PaypalOrder where
  "order_O4 = \<lparr>order_id = Some ''O4'', status = Some Approved,
               purchaseUnits = Some [unit_of None (Some [auth_A1]) None]\<rparr>"

definition order_O4_no_units :: PaypalOrder where
  "order_O4_no_units = \<lparr>order_id = Some ''O4'', status = Some Approved, purchaseUnits = None\<rparr>"

text \<open>
  Order O5: two purchase units, the capture on the second. Order O6: one purchase unit
  whose payments hold neither an authorization nor a capture.
\<close>

definition order_O5 :: PaypalOrder where
  "order_O5 = \<lparr>order_id = Some ''O5'', status = Some Approved,
               purchaseUnits = Some [unit_of None (Some [auth_A1]) None,
                                     unit_of None None (Some [capture_C1])]\<rparr>"

definition order_O6 :: PaypalOrder where
  "order_O6 = \<lparr>order_id = Some ''O6'', status = Some Approved,
               purchaseUnits = Some [unit_of None None None]\<rparr>"

text \<open>An order as a response that carries no identifier.\<close>

definition order_unidentified :: PaypalOrder where
  "order_unidentified = \<lparr>order_id = None, status = Some Created, purchaseUnits = None\<rparr>"

text \<open>
  The input object of an operation on a session that embeds the order, with one more
  key in the session's data and the framework's context beside it.
\<close>

definition payload_of :: "PaypalOrder \<Rightarrow> jobject" where
  "payload_of ord = [(''cart'', JString ''cart_01''),
                     (''paypalOrderId'', ofString (order_id ord)),
                     (''paypalOrder'', JOrder ord)]"

definition session_of :: "PaypalOrder \<Rightarrow> jobject" where
  "session_of ord = [(''data'', JObject (payload_of ord)), (''context'', JObject [])]"

definition refund_of :: "PaypalOrder \<Rightarrow> jobject" where
  "refund_of ord = session_of ord @ [(''amount'', JNumber 5)]"

definition initiate_input :: jobject where
  "initiate_input = [(''amount'', JNumber 10), (''currency_code'', JString ''usd''),
                     (''context'', JObject [])]"

text \<open>A stand-in for the formatter: the amount and the currency code, side by side.\<close>

definition plain_amount :: "jvalue option \<Rightarrow> jvalue option \<Rightarrow> jvalue" where
  "plain_amount a c =
     JObject [(''value'', case a of Some v \<Rightarrow> v | None \<Rightarrow> JUndefined),
              (''currencyCode'', case c of Some v \<Rightarrow> v | None \<Rightarrow> JUndefined)]"

text \<open>
  Remote services: one that accepts every request and answers with the order it holds,
  one that holds O1 and completes it when its authorization is captured, and one that
  rejects every request.
\<close>

definition remote_holding :: "PaypalOrder \<Rightarrow> sdk" where
  "remote_holding ord = (\<lambda>history c. Inr ord)"

definition remote_O1 :: sdk where
  "remote_O1 = (\<lambda>history c.
     if CaptureAuthorizedPayment (Some ''A1'') \<in> set history then Inr order_O1_captured
     else Inr order_O1)"

definition remote_rejecting :: sdk where
  "remote_rejecting = (\<lambda>history c. Inl (ApiError 404 [(''content-type'', ''application/json'')]))"

text \<open>Options with an environment that is neither of the two, and options without a secret.\<close>

definition options_staging :: Options where
  "options_staging = \<lparr>oAuthClientId = Some ''client'', oAuthClientSecret = Some ''secret'',
                       environment = Some ''staging''\<rparr>"

definition options_no_secret :: Options where
  "options_no_secret = \<lparr>oAuthClientId = Some ''client'', oAuthClientSecret = None,
                       environment = Some ''sandbox''\<rparr>"

text \<open>
  What the operations return on these: the session of O1 after a fetch of the captured
  order, after \<^verbatim>\<open>authorizePayment\<close>, and the payload of a new order O1.
\<close>

definition session_O1_refreshed :: jobject where
  "session_O1_refreshed =
     [(''data'', JObject (payload_of order_O1)), (''context'', JObject []),
      (''paypalOrderId'', JString ''O1''), (''paypalOrder'', JOrder order_O1_captured)]"

definition session_O1_authorized :: jobject where
  "session_O1_authorized =
     [(''data'', JObject (payload_of order_O1)), (''context'', JObject []),
      (''paypalOrder'', JOrder order_O1_captured), (''paypalOrderId'', JString ''O1'')]"

definition session_O1_initiated :: jobject where
  "session_O1_initiated =
     [(''amount'', JNumber 10), (''currency_code'', JString ''usd''), (''context'', JObject []),
      (''paypalOrderId'', JString ''O1''), (''paypalOrder'', JOrder order_O1)]"

text \<open>
  The input of the next operation on the session, once the framework has stored the
  payload returned by the fetch as the session's data; and what a second fetch returns.
\<close>

definition session_O1_next :: jobject where
  "session_O1_next = [(''data'', JObject session_O1_refreshed), (''context'', JObject [])]"

definition session_O1_refreshed_twice :: jobject where
  "session_O1_refreshed_twice =
     [(''data'', JObject session_O1_refreshed), (''context'', JObject []),
      (''paypalOrderId'', JString ''O1''), (''paypalOrder'', JOrder order_O1_captured)]"

section \<open>Properties\<close>

lemmas scenario_defs =
  fresh_world_def unit_of_def auth_A1_def capture_C1_def order_O1_def order_O1_captured_def
  order_O2_def order_O3_def order_O3_remote_def order_O4_def order_O4_no_units_def
  order_O5_def order_O6_def order_unidentified_def remote_holding_def remote_O1_def
  remote_rejecting_def plain_amount_def

lemmas run_defs =
  retrievePayment_def sendThenRetrieve_def send_def logError_def truthy_def ofString_def
  hasCaptures_def

subsection \<open>What a fetch does\<close>

lemma paypalOrderOf_update:
  "paypalOrderOf (AList.update ''paypalOrder'' (JOrder r) d) = Some r"
  by (simp add: paypalOrderOf_def update_conv')

lemma retrievePayment_calls:
  "embeddedOrder paymentData = Some ord \<Longrightarrow>
   calls (snd (retrievePayment paypal w paymentData)) = calls w @ [GetOrder (order_id ord)]"
  by (simp add: retrievePayment_def send_def logError_def split: sum.splits remote_failure.splits)

lemma retrievePayment_fetched:
  assumes "embeddedOrder paymentData = Some ord"
    and "paypal (calls w) (GetOrder (order_id ord)) = Inr fetched"
    and "truthy (order_id fetched)"
  shows "retrievePayment paypal w paymentData =
           (Inr (AList.update ''paypalOrder'' (JOrder fetched)
                   (AList.update ''paypalOrderId'' (ofString (order_id fetched)) paymentData)),
            w\<lparr>calls := calls w @ [GetOrder (order_id ord)]\<rparr>)"
  using assms by (simp add: retrievePayment_def send_def)

lemma retrievePayment_InrD:
  assumes "fst (retrievePayment paypal w paymentData) = Inr out"
  shows "\<exists>ord fetched. embeddedOrder paymentData = Some ord
           \<and> paypal (calls w) (GetOrder (order_id ord)) = Inr fetched
           \<and> truthy (order_id fetched)
           \<and> out = AList.update ''paypalOrder'' (JOrder fetched)
                     (AList.update ''paypalOrderId'' (ofString (order_id fetched)) paymentData)"
  using assms
  by (auto simp: retrievePayment_def send_def
           split: option.splits sum.splits remote_failure.splits if_splits)

lemma embeddedOrder_session_of: "embeddedOrder (session_of ord) = Some ord"
  by (simp add: embeddedOrder_def session_of_def payload_of_def paypalOrderOf_def)

lemma embeddedOrder_refund_of: "embeddedOrder (refund_of ord) = Some ord"
  by (simp add: embeddedOrder_def refund_of_def session_of_def payload_of_def paypalOrderOf_def)

lemma retrievePayment_shape:
  assumes "fst (retrievePayment paypal w paymentData) = Inr out"
  shows "\<exists>fetched history c. paypal history c = Inr fetched \<and> truthy (order_id fetched)
           \<and> map_of out = (map_of paymentData)(''paypalOrderId'' \<mapsto> ofString (order_id fetched),
                                               ''paypalOrder'' \<mapsto> JOrder fetched)"
proof -
  from retrievePayment_InrD [OF assms] obtain ord fetched where
    all: "embeddedOrder paymentData = Some ord
           \<and> paypal (calls w) (GetOrder (order_id ord)) = Inr fetched
           \<and> truthy (order_id fetched)
           \<and> out = AList.update ''paypalOrder'' (JOrder fetched)
                     (AList.update ''paypalOrderId'' (ofString (order_id fetched)) paymentData)"
    by (elim exE)
  then have f: "paypal (calls w) (GetOrder (order_id ord)) = Inr fetched" "truthy (order_id fetched)"
    and o: "out = AList.update ''paypalOrder'' (JOrder fetched)
                     (AList.update ''paypalOrderId'' (ofString (order_id fetched)) paymentData)"
    by simp_all
  from o have "map_of out = (map_of paymentData)(''paypalOrderId'' \<mapsto> ofString (order_id fetched),
                                               ''paypalOrder'' \<mapsto> JOrder fetched)"
    by (simp add: update_conv')
  with f show ?thesis by blast
qed

subsection \<open>A request followed by a fetch\<close>

lemma sendThenRetrieve_calls:
  assumes "embeddedOrder paymentData = Some ord"
  shows "calls (snd (sendThenRetrieve paypal w paymentData c)) =
           calls w @ c # (if isl (paypal (calls w) c) then [] else [GetOrder (order_id ord)])"
proof (cases "paypal (calls w) c")
  case (Inl failure)
  then show ?thesis by (simp add: sendThenRetrieve_def send_def)
next
  case (Inr body)
  then show ?thesis
    using retrievePayment_calls [OF assms, of paypal "w\<lparr>calls := calls w @ [c]\<rparr>"]
    by (simp add: sendThenRetrieve_def send_def)
qed

lemma sendThenRetrieve_InrD:
  assumes "sendThenRetrieve paypal w paymentData c = (Inr out, w2)"
  shows "\<exists>w1. fst (retrievePayment paypal w1 paymentData) = Inr out"
proof (cases "paypal (calls w) c")
  case (Inl failure)
  with assms show ?thesis by (simp add: sendThenRetrieve_def send_def)
next
  case (Inr body)
  with assms have "fst (retrievePayment paypal (w\<lparr>calls := calls w @ [c]\<rparr>) paymentData) = Inr out"
    by (simp add: sendThenRetrieve_def send_def)
  then show ?thesis ..
qed

lemma caught_calls:
  "calls (snd (case r of (Inr out, w1) \<Rightarrow> (Inr out, w1)
                       | (Inl e, w1) \<Rightarrow> (Inl (Error msg), w1))) = calls (snd r)"
  by (simp split: prod.splits sum.splits)

lemma capturePayment_InrD:
  assumes "fst (capturePayment paypal w paymentData) = Inr out"
  shows "\<exists>w1. fst (retrievePayment paypal w1 paymentData) = Inr out"
  using assms
  by (auto simp: capturePayment_def split: option.splits list.splits prod.splits sum.splits
           dest: sendThenRetrieve_InrD)

lemma cancelPayment_InrD:
  assumes "fst (cancelPayment paypal w paymentData) = Inr out"
  shows "\<exists>w1. fst (retrievePayment paypal w1 paymentData) = Inr out"
  using assms
  by (auto simp: cancelPayment_def
           split: option.splits list.splits prod.splits sum.splits if_splits
           dest: sendThenRetrieve_InrD)

lemma refundPayment_InrD:
  assumes "fst (refundPayment convertAmount paypal w paymentData) = Inr out"
  shows "\<exists>w1. fst (retrievePayment paypal w1 paymentData) = Inr out"
  using assms
  by (auto simp: refundPayment_def
           split: option.splits list.splits prod.splits sum.splits if_splits
           dest: sendThenRetrieve_InrD)

lemma updatePayment_InrD:
  assumes "fst (updatePayment convertAmount paypal w paymentData) = Inr out"
  shows "\<exists>w1. fst (retrievePayment paypal w1 paymentData) = Inr out"
  using assms
  by (auto simp: updatePayment_def split: option.splits prod.splits sum.splits
           dest: sendThenRetrieve_InrD)

lemma authorizePayment_shape:
  assumes "fst (authorizePayment paypal w paymentData) = Inr (out, st)"
  shows "\<exists>fetched history c. paypal history c = Inr fetched \<and> truthy (order_id fetched)
           \<and> map_of out = (map_of paymentData)(''paypalOrderId'' \<mapsto> ofString (order_id fetched),
                                               ''paypalOrder'' \<mapsto> JOrder fetched)"
proof -
  from assms obtain w1 retrieved w2 ord where
    r: "retrievePayment paypal w1 paymentData = (Inr retrieved, w2)"
    and p: "paypalOrderOf retrieved = Some ord"
    and o: "out = AList.update ''paypalOrderId'' (ofString (order_id ord))
                    (AList.update ''paypalOrder'' (JOrder ord) paymentData)"
    by (auto simp: authorizePayment_def split: prod.splits sum.splits option.splits)
  from r have "fst (retrievePayment paypal w1 paymentData) = Inr retrieved" by simp
  from retrievePayment_InrD [OF this] obtain ord0 fetched where
    all: "embeddedOrder paymentData = Some ord0
           \<and> paypal (calls w1) (GetOrder (order_id ord0)) = Inr fetched
           \<and> truthy (order_id fetched)
           \<and> retrieved = AList.update ''paypalOrder'' (JOrder fetched)
                     (AList.update ''paypalOrderId'' (ofString (order_id fetched)) paymentData)"
    by (elim exE)
  with p have "ord = fetched" by (simp add: paypalOrderOf_update)
  with o have "map_of out = (map_of paymentData)(''paypalOrderId'' \<mapsto> ofString (order_id fetched),
                                               ''paypalOrder'' \<mapsto> JOrder fetched)"
    by (simp add: update_conv' fun_upd_twist)
  with all show ?thesis by blast
qed

lemma initiatePayment_shape:
  assumes "fst (initiatePayment convertAmount paypal w paymentData) = Inr (i, out)"
  shows "\<exists>fetched history c. paypal history c = Inr fetched \<and> truthy (order_id fetched)
           \<and> map_of out = (map_of paymentData)(''paypalOrderId'' \<mapsto> ofString (order_id fetched),
                                               ''paypalOrder'' \<mapsto> JOrder fetched)"
proof -
  from assms obtain fetched where
    f: "paypal (calls w) (CreateOrder (convertAmount (map_of paymentData ''amount'')
                                         (map_of paymentData ''currency_code''))) = Inr fetched"
    and i: "order_id fetched = Some i" "i \<noteq> []"
    and o: "out = AList.update ''paypalOrder'' (JOrder fetched)
                    (AList.update ''paypalOrderId'' (JString i) paymentData)"
    by (auto simp: initiatePayment_def send_def
             split: prod.splits sum.splits option.splits remote_failure.splits if_splits)
  from i have t: "truthy (order_id fetched)" by (simp add: truthy_def)
  from o i have "map_of out = (map_of paymentData)(''paypalOrderId'' \<mapsto> ofString (order_id fetched),
                                               ''paypalOrder'' \<mapsto> JOrder fetched)"
    by (simp add: update_conv' ofString_def)
  with f t show ?thesis by blast
qed

subsection \<open>The status of a payment\<close>

text \<open>
  C1. When the order is fetched, \<^verbatim>\<open>getPaymentStatus\<close> returns the framework status that the
  table of the specification gives for the status of the fetched order: pending for
  created, requires_more for saved, approved and payer-action-required, canceled for
  voided, authorized for completed, and pending for every other status, absent or
  unrecognized.
\<close>

theorem getPaymentStatus_table:
  assumes "embeddedOrder paymentData = Some ord"
    and "paypal (calls w) (GetOrder (order_id ord)) = Inr fetched"
    and "truthy (order_id fetched)"
  shows "fst (getPaymentStatus paypal w paymentData) = Inr (spec_status_table (status fetched))"
proof -
  have r: "retrievePayment paypal w paymentData =
           (Inr (AList.update ''paypalOrder'' (JOrder fetched)
                   (AList.update ''paypalOrderId'' (ofString (order_id fetched)) paymentData)),
            w\<lparr>calls := calls w @ [GetOrder (order_id ord)]\<rparr>)"
    using assms by (rule retrievePayment_fetched)
  show ?thesis
  proof (cases "status fetched")
    case None
    then show ?thesis
      by (simp add: getPaymentStatus_def r paypalOrderOf_update spec_status_table_def)
  next
    case (Some s)
    then show ?thesis
      by (cases s) (simp_all add: getPaymentStatus_def r paypalOrderOf_update spec_status_table_def)
  qed
qed

theorem getPaymentStatus_table_witness:
  "embeddedOrder (session_of order_O1) = Some order_O1
   \<and> remote_holding order_O1 (calls fresh_world) (GetOrder (order_id order_O1)) = Inr order_O1
   \<and> truthy (order_id order_O1)
   \<and> fst (getPaymentStatus (remote_holding order_O1) fresh_world (session_of order_O1)) = Inr pending
   \<and> fst (getPaymentStatus (remote_holding order_O3) fresh_world (session_of order_O1)) = Inr canceled"
proof -
  have e: "embeddedOrder (session_of order_O1) = Some order_O1"
    by (rule embeddedOrder_session_of)
  have a: "remote_holding order_O1 (calls fresh_world) (GetOrder (order_id order_O1)) = Inr order_O1"
    and b: "remote_holding order_O3 (calls fresh_world) (GetOrder (order_id order_O1)) = Inr order_O3"
    by (simp_all add: remote_holding_def)
  have t: "truthy (order_id order_O1)" "truthy (order_id order_O3)"
    by (simp_all add: truthy_def order_O1_def order_O3_def)
  show ?thesis
    using getPaymentStatus_table
            [of "session_of order_O1" order_O1 "remote_holding order_O1" fresh_world order_O1]
          getPaymentStatus_table
            [of "session_of order_O1" order_O1 "remote_holding order_O3" fresh_world order_O3]
          e a b t
    by (simp add: spec_status_table_def order_O1_def order_O3_def)
qed

subsection \<open>Cancelling\<close>

text \<open>
  C2 (as amended). For an embedded order with a first purchase unit that has a payments
  sub-object, if the order is voided, or is completed and the first purchase unit carries
  a non-empty invoice identifier, then \<^verbatim>\<open>cancelPayment\<close> is exactly \<^verbatim>\<open>retrievePayment\<close>: it
  sends no refund and no void, its one request is the fetch of the embedded order's
  identifier, and it returns what the fetch gives, or fails as the fetch fails.
\<close>

theorem cancelPayment_shortcut_refetches:
  assumes "embeddedOrder paymentData = Some ord"
    and "purchaseUnits ord = Some (pu # pus)"
    and "payments pu = Some p"
    and "status ord = Some Voided \<or> (status ord = Some Completed \<and> truthy (invoiceId pu))"
  shows "cancelPayment paypal w paymentData = retrievePayment paypal w paymentData
         \<and> calls (snd (cancelPayment paypal w paymentData)) = calls w @ [GetOrder (order_id ord)]"
proof -
  have "cancelPayment paypal w paymentData = retrievePayment paypal w paymentData"
    using assms by (auto simp: cancelPayment_def)
  then show ?thesis
    using retrievePayment_calls [OF assms(1)] by simp
qed

text \<open>
  The theorem on order O3, voided, while the remote service holds a newer copy of it.
\<close>

theorem cancelPayment_shortcut_refetches_witness:
  "embeddedOrder (session_of order_O3) = Some order_O3
   \<and> purchaseUnits order_O3 = Some [unit_of None (Some [auth_A1]) None]
   \<and> payments (unit_of None (Some [auth_A1]) None)
       = Some \<lparr>authorizations = Some [auth_A1], captures = None\<rparr>
   \<and> status order_O3 = Some Voided
   \<and> cancelPayment (remote_holding order_O3_remote) fresh_world (session_of order_O3)
       = retrievePayment (remote_holding order_O3_remote) fresh_world (session_of order_O3)
   \<and> calls (snd (cancelPayment (remote_holding order_O3_remote) fresh_world (session_of order_O3)))
       = [GetOrder (Some ''O3'')]"
proof -
  have e: "embeddedOrder (session_of order_O3) = Some order_O3"
    by (rule embeddedOrder_session_of)
  have u: "purchaseUnits order_O3 = Some (unit_of None (Some [auth_A1]) None # [])"
    by (simp add: order_O3_def)
  have p: "payments (unit_of None (Some [auth_A1]) None)
             = Some \<lparr>authorizations = Some [auth_A1], captures = None\<rparr>"
    by (simp add: unit_of_def)
  have s: "status order_O3 = Some Voided"
    by (simp add: order_O3_def)
  then have s': "status order_O3 = Some Voided
      \<or> (status order_O3 = Some Completed \<and> truthy (invoiceId (unit_of None (Some [auth_A1]) None)))"
    by simp
  note t = cancelPayment_shortcut_refetches
             [OF e u p s', of "remote_holding order_O3_remote" fresh_world]
  have c: "calls fresh_world @ [GetOrder (order_id order_O3)] = [GetOrder (Some ''O3'')]"
    by (simp add: fresh_world_def order_O3_def)
  have t2: "calls (snd (cancelPayment (remote_holding order_O3_remote) fresh_world
                          (session_of order_O3))) = [GetOrder (Some ''O3'')]"
    using t [THEN conjunct2] c by simp
  show ?thesis
    by (intro conjI e u p s t [THEN conjunct1] t2)
qed

text \<open>
  C2 as stated fails: on the voided order O3 a request is sent, and the order returned is
  the remote copy, which is not the embedded one.
\<close>

theorem cancelPayment_shortcut_counterexample:
  "embeddedOrder (session_of order_O3) = Some order_O3
   \<and> status order_O3 = Some Voided
   \<and> calls (snd (cancelPayment (remote_holding order_O3_remote) fresh_world (session_of order_O3)))
       = [GetOrder (Some ''O3'')]
   \<and> map_sum id paypalOrderOf
        (fst (cancelPayment (remote_holding order_O3_remote) fresh_world (session_of order_O3)))
       = Inr (Some order_O3_remote)
   \<and> order_O3_remote \<noteq> order_O3"
  by (simp add: cancelPayment_def embeddedOrder_session_of paypalOrderOf_update
        scenario_defs run_defs)

text \<open>
  C3 (as amended). For an embedded order outside the two shortcut states whose first
  purchase unit has a payments sub-object: when the first purchase unit has a capture, the
  one request before the fetch is a refund of its first capture, with no amount; when no
  purchase unit has a capture and the first purchase unit has an authorization, it is a
  void of its first authorization. The fetch follows if and only if the request was
  accepted.
\<close>

theorem cancelPayment_refund_or_void:
  assumes "embeddedOrder paymentData = Some ord"
    and "purchaseUnits ord = Some (pu # pus)"
    and "payments pu = Some p"
    and "status ord \<noteq> Some Voided"
    and "\<not> (status ord = Some Completed \<and> truthy (invoiceId pu))"
  shows "(captures p = Some (c # cs) \<longrightarrow>
            calls (snd (cancelPayment paypal w paymentData)) =
              calls w @ RefundCapturedPayment (capture_id c) None #
                (if isl (paypal (calls w) (RefundCapturedPayment (capture_id c) None)) then []
                 else [GetOrder (order_id ord)]))
       \<and> (\<not> list_ex hasCaptures (pu # pus) \<and> authorizations p = Some (a # as) \<longrightarrow>
            calls (snd (cancelPayment paypal w paymentData)) =
              calls w @ VoidPayment (authorization_id a) #
                (if isl (paypal (calls w) (VoidPayment (authorization_id a))) then []
                 else [GetOrder (order_id ord)]))"
proof (intro conjI impI)
  assume c: "captures p = Some (c # cs)"
  then have h: "hasCaptures pu" using assms(3) by (simp add: hasCaptures_def)
  have "cancelPayment paypal w paymentData =
          (case sendThenRetrieve paypal w paymentData (RefundCapturedPayment (capture_id c) None) of
             (Inr out, w1) \<Rightarrow> (Inr out, w1)
           | (Inl e, w1) \<Rightarrow> (Inl (Error ''An error occurred in cancelPayment''), w1))"
    using assms c h by (auto simp: cancelPayment_def)
  then show "calls (snd (cancelPayment paypal w paymentData)) =
              calls w @ RefundCapturedPayment (capture_id c) None #
                (if isl (paypal (calls w) (RefundCapturedPayment (capture_id c) None)) then []
                 else [GetOrder (order_id ord)])"
    by (simp only: caught_calls sendThenRetrieve_calls [OF assms(1)])
next
  assume n: "\<not> list_ex hasCaptures (pu # pus) \<and> authorizations p = Some (a # as)"
  have "cancelPayment paypal w paymentData =
          (case sendThenRetrieve paypal w paymentData (VoidPayment (authorization_id a)) of
             (Inr out, w1) \<Rightarrow> (Inr out, w1)
           | (Inl e, w1) \<Rightarrow> (Inl (Error ''An error occurred in cancelPayment''), w1))"
    using assms n by (auto simp: cancelPayment_def)
  then show "calls (snd (cancelPayment paypal w paymentData)) =
              calls w @ VoidPayment (authorization_id a) #
                (if isl (paypal (calls w) (VoidPayment (authorization_id a))) then []
                 else [GetOrder (order_id ord)])"
    by (simp only: caught_calls sendThenRetrieve_calls [OF assms(1)])
qed

text \<open>
  The theorem on order O2 (a capture: refund, then fetch), on order O4 (no capture: void,
  then fetch) and on order O4 with a remote service that rejects the void.
\<close>

theorem cancelPayment_refund_or_void_witness:
  "calls (snd (cancelPayment (remote_holding order_O2) fresh_world (session_of order_O2)))
     = [RefundCapturedPayment (Some ''C1'') None, GetOrder (Some ''O2'')]
   \<and> calls (snd (cancelPayment (remote_holding order_O4) fresh_world (session_of order_O4)))
     = [VoidPayment (Some ''A1''), GetOrder (Some ''O4'')]
   \<and> calls (snd (cancelPayment remote_rejecting fresh_world (session_of order_O4)))
     = [VoidPayment (Some ''A1'')]"
proof -
  have e2: "embeddedOrder (session_of order_O2) = Some order_O2"
    and e4: "embeddedOrder (session_of order_O4) = Some order_O4"
    by (rule embeddedOrder_session_of)+
  have u2: "purchaseUnits order_O2 = Some (unit_of None (Some [auth_A1]) (Some [capture_C1]) # [])"
    and u4: "purchaseUnits order_O4 = Some (unit_of None (Some [auth_A1]) None # [])"
    by (simp_all add: order_O2_def order_O4_def)
  have p2: "payments (unit_of None (Some [auth_A1]) (Some [capture_C1]))
             = Some \<lparr>authorizations = Some [auth_A1], captures = Some [capture_C1]\<rparr>"
    and p4: "payments (unit_of None (Some [auth_A1]) None)
             = Some \<lparr>authorizations = Some [auth_A1], captures = None\<rparr>"
    by (simp_all add: unit_of_def)
  have s2: "status order_O2 \<noteq> Some Voided"
    "\<not> (status order_O2 = Some Completed
         \<and> truthy (invoiceId (unit_of None (Some [auth_A1]) (Some [capture_C1]))))"
    and s4: "status order_O4 \<noteq> Some Voided"
    "\<not> (status order_O4 = Some Completed \<and> truthy (invoiceId (unit_of None (Some [auth_A1]) None)))"
    by (simp_all add: order_O2_def order_O4_def unit_of_def truthy_def)
  show ?thesis
    using cancelPayment_refund_or_void
            [OF e2 u2 p2 s2, of capture_C1 "[]" "remote_holding order_O2" fresh_world auth_A1 "[]"]
          cancelPayment_refund_or_void
            [OF e4 u4 p4 s4, of capture_C1 "[]" "remote_holding order_O4" fresh_world auth_A1 "[]"]
          cancelPayment_refund_or_void
            [OF e4 u4 p4 s4, of capture_C1 "[]" remote_rejecting fresh_world auth_A1 "[]"]
    by (simp add: scenario_defs hasCaptures_def)
qed

text \<open>
  C3 as stated fails twice. Order O5 has a capture on its second purchase unit only: no
  refund is sent. Order O6 has no capture and no authorization: no void is sent. Both
  calls fail with the error of \<^verbatim>\<open>cancelPayment\<close> and leave the world as it was.
\<close>

theorem cancelPayment_refund_or_void_counterexample:
  "embeddedOrder (session_of order_O5) = Some order_O5
   \<and> status order_O5 = Some Approved
   \<and> map_option (list_ex hasCaptures) (purchaseUnits order_O5) = Some True
   \<and> cancelPayment (remote_holding order_O5) fresh_world (session_of order_O5)
       = (Inl (Error ''An error occurred in cancelPayment''), fresh_world)
   \<and> embeddedOrder (session_of order_O6) = Some order_O6
   \<and> status order_O6 = Some Approved
   \<and> map_option (list_ex hasCaptures) (purchaseUnits order_O6) = Some False
   \<and> cancelPayment (remote_holding order_O6) fresh_world (session_of order_O6)
       = (Inl (Error ''An error occurred in cancelPayment''), fresh_world)
   \<and> calls fresh_world = []"
  by (simp add: cancelPayment_def embeddedOrder_session_of scenario_defs run_defs)

subsection \<open>Refunding\<close>

text \<open>
  C4 (as amended). For an embedded order with a first purchase unit that has a payments
  sub-object, whatever the amount asked for: if no purchase unit has a capture,
  \<^verbatim>\<open>refundPayment\<close> fails with "Cannot refund an uncaptured payment", sends no request and
  logs nothing.
\<close>

theorem refundPayment_uncaptured:
  assumes "embeddedOrder paymentData = Some ord"
    and "purchaseUnits ord = Some (pu # pus)"
    and "payments pu = Some p"
    and "\<not> list_ex hasCaptures (pu # pus)"
  shows "refundPayment convertAmount paypal w paymentData
           = (Inl (Error ''Cannot refund an uncaptured payment''), w)"
  using assms by (simp add: refundPayment_def)

text \<open>
  The theorem on order O4, which has an authorization and no capture.
\<close>

theorem refundPayment_uncaptured_witness:
  "embeddedOrder (refund_of order_O4) = Some order_O4
   \<and> \<not> list_ex hasCaptures [unit_of None (Some [auth_A1]) None]
   \<and> refundPayment plain_amount (remote_holding order_O4) fresh_world (refund_of order_O4)
       = (Inl (Error ''Cannot refund an uncaptured payment''), fresh_world)
   \<and> calls fresh_world = []"
proof -
  have e: "embeddedOrder (refund_of order_O4) = Some order_O4"
    by (simp add: refund_of_def session_of_def payload_of_def embeddedOrder_def paypalOrderOf_def)
  have u: "purchaseUnits order_O4 = Some (unit_of None (Some [auth_A1]) None # [])"
    by (simp add: order_O4_def)
  have p: "payments (unit_of None (Some [auth_A1]) None)
             = Some \<lparr>authorizations = Some [auth_A1], captures = None\<rparr>"
    by (simp add: unit_of_def)
  have n: "\<not> list_ex hasCaptures (unit_of None (Some [auth_A1]) None # [])"
    by (simp add: hasCaptures_def unit_of_def)
  have c: "calls fresh_world = []"
    by (simp add: fresh_world_def)
  show ?thesis
    by (intro conjI e n c
          refundPayment_uncaptured [OF e u p n, of plain_amount "remote_holding order_O4" fresh_world])
qed

text \<open>
  C4 as stated fails: an order without purchase units has no capture either, and the
  refund fails with the error of \<^verbatim>\<open>refundPayment\<close>, not with the uncaptured-payment error.
\<close>

theorem refundPayment_uncaptured_counterexample:
  "embeddedOrder (refund_of order_O4_no_units) = Some order_O4_no_units
   \<and> purchaseUnits order_O4_no_units = None
   \<and> refundPayment plain_amount (remote_holding order_O4_no_units) fresh_world
        (refund_of order_O4_no_units)
       = (Inl (Error ''An error occurred in refundPayment''), fresh_world)"
  by (simp add: refundPayment_def refund_of_def session_of_def payload_of_def embeddedOrder_def paypalOrderOf_def
        order_O4_no_units_def)

text \<open>
  C9. There is a session whose embedded order has a first purchase unit with a payments
  sub-object and no list of captures, and a later purchase unit with a capture, on which
  \<^verbatim>\<open>refundPayment\<close> raises a \<^verbatim>\<open>TypeError\<close>, which is neither the uncaptured-payment error
  nor the error of \<^verbatim>\<open>refundPayment\<close>, whatever the remote service and the formatter are, and
  leaves the world as it was.
\<close>

theorem refundPayment_capture_on_later_unit:
  "\<exists>paymentData ord pu pus p.
      embeddedOrder paymentData = Some ord
    \<and> purchaseUnits ord = Some (pu # pus)
    \<and> payments pu = Some p
    \<and> captures p = None
    \<and> list_ex hasCaptures pus
    \<and> (\<forall>convertAmount paypal w.
          refundPayment convertAmount paypal w paymentData = (Inl TypeError, w))"
proof (intro exI conjI allI)
  show "embeddedOrder (refund_of order_O5) = Some order_O5"
    by (simp add: refund_of_def session_of_def payload_of_def embeddedOrder_def paypalOrderOf_def)
  show "purchaseUnits order_O5
          = Some (unit_of None (Some [auth_A1]) None # [unit_of None None (Some [capture_C1])])"
    by (simp add: order_O5_def)
  show "payments (unit_of None (Some [auth_A1]) None)
          = Some \<lparr>authorizations = Some [auth_A1], captures = None\<rparr>"
    by (simp add: unit_of_def)
  show "captures \<lparr>authorizations = Some [auth_A1], captures = None\<rparr> = None"
    by simp
  show "list_ex hasCaptures [unit_of None None (Some [capture_C1])]"
    by (simp add: hasCaptures_def unit_of_def)
  show "refundPayment convertAmount paypal w (refund_of order_O5) = (Inl TypeError, w)"
    for convertAmount paypal w
    by (simp add: refundPayment_def refund_of_def session_of_def payload_of_def embeddedOrder_def paypalOrderOf_def
          order_O5_def unit_of_def hasCaptures_def)
qed

subsection \<open>Capturing\<close>

text \<open>
  C5. For a session with an embedded order: if there is no first purchase unit, or it has
  no payments sub-object, or no first authorization, \<^verbatim>\<open>capturePayment\<close> fails with its
  error and sends nothing. Otherwise it asks for the capture of the first authorization's
  identifier; if that is rejected it fails with its error; if it is accepted it fetches
  the order next, and when the fetch answers with an identified order, returns the
  session with that order.
\<close>

theorem capturePayment_contract:
  assumes "embeddedOrder paymentData = Some ord"
  shows "((\<nexists>pu pus p auth auths. purchaseUnits ord = Some (pu # pus) \<and> payments pu = Some p
              \<and> authorizations p = Some (auth # auths)) \<longrightarrow>
            capturePayment paypal w paymentData
              = (Inl (Error ''An error occurred in capturePayment''), w))
       \<and> (purchaseUnits ord = Some (pu # pus) \<and> payments pu = Some p
            \<and> authorizations p = Some (auth # auths) \<longrightarrow>
            (isl (paypal (calls w) (CaptureAuthorizedPayment (authorization_id auth))) \<longrightarrow>
               fst (capturePayment paypal w paymentData)
                 = Inl (Error ''An error occurred in capturePayment'')
               \<and> calls (snd (capturePayment paypal w paymentData))
                 = calls w @ [CaptureAuthorizedPayment (authorization_id auth)])
          \<and> (\<not> isl (paypal (calls w) (CaptureAuthorizedPayment (authorization_id auth))) \<longrightarrow>
               calls (snd (capturePayment paypal w paymentData))
                 = calls w @ [CaptureAuthorizedPayment (authorization_id auth), GetOrder (order_id ord)]
               \<and> (paypal (calls w @ [CaptureAuthorizedPayment (authorization_id auth)])
                          (GetOrder (order_id ord)) = Inr fetched
                    \<and> truthy (order_id fetched) \<longrightarrow>
                    fst (capturePayment paypal w paymentData)
                      = Inr (AList.update ''paypalOrder'' (JOrder fetched)
                              (AList.update ''paypalOrderId'' (ofString (order_id fetched))
                                 paymentData)))))"
proof -
  let ?c = "CaptureAuthorizedPayment (authorization_id auth)"
  let ?failed = "Inl (Error ''An error occurred in capturePayment'')"
  have absent: "capturePayment paypal w paymentData = (?failed, w)"
    if "\<nexists>pu pus p auth auths. purchaseUnits ord = Some (pu # pus) \<and> payments pu = Some p
              \<and> authorizations p = Some (auth # auths)"
    using assms that by (auto simp: capturePayment_def split: option.splits list.splits)
  have unfolded: "capturePayment paypal w paymentData =
      (case sendThenRetrieve paypal w paymentData ?c of
         (Inr out, w1) \<Rightarrow> (Inr out, w1)
       | (Inl e, w1) \<Rightarrow> (?failed, logError w1 [LogError e]))"
    if "purchaseUnits ord = Some (pu # pus) \<and> payments pu = Some p
            \<and> authorizations p = Some (auth # auths)"
    using assms that by (simp add: capturePayment_def)
  have sent: "calls (snd (capturePayment paypal w paymentData))
              = calls w @ ?c # (if isl (paypal (calls w) ?c) then [] else [GetOrder (order_id ord)])"
    if "purchaseUnits ord = Some (pu # pus) \<and> payments pu = Some p
            \<and> authorizations p = Some (auth # auths)"
    unfolding unfolded [OF that] sendThenRetrieve_calls [OF assms, symmetric]
    by (simp add: logError_def split: prod.splits sum.splits)
  have rejected: "fst (capturePayment paypal w paymentData) = ?failed"
    if "purchaseUnits ord = Some (pu # pus) \<and> payments pu = Some p
            \<and> authorizations p = Some (auth # auths)"
      and "isl (paypal (calls w) ?c)"
    using that(2) unfolding unfolded [OF that(1)]
    by (auto simp: sendThenRetrieve_def send_def isl_def)
  have accepted: "fst (capturePayment paypal w paymentData)
                      = Inr (AList.update ''paypalOrder'' (JOrder fetched)
                              (AList.update ''paypalOrderId'' (ofString (order_id fetched))
                                 paymentData))"
    if "purchaseUnits ord = Some (pu # pus) \<and> payments pu = Some p
            \<and> authorizations p = Some (auth # auths)"
      and acc: "\<not> isl (paypal (calls w) ?c)"
      and f: "paypal (calls w @ [?c]) (GetOrder (order_id ord)) = Inr fetched
               \<and> truthy (order_id fetched)"
  proof -
    obtain w2 where "retrievePayment paypal (w\<lparr>calls := calls w @ [?c]\<rparr>) paymentData =
           (Inr (AList.update ''paypalOrder'' (JOrder fetched)
                   (AList.update ''paypalOrderId'' (ofString (order_id fetched)) paymentData)), w2)"
      using f assms
        retrievePayment_fetched [of paymentData ord paypal "w\<lparr>calls := calls w @ [?c]\<rparr>" fetched]
      by simp
    with acc show ?thesis
      unfolding unfolded [OF that(1)]
      by (cases "paypal (calls w) ?c") (simp_all add: sendThenRetrieve_def send_def)
  qed
  show ?thesis
    using absent sent rejected accepted by simp
qed

text \<open>
  The theorem on order O6 (no authorization), on order O1 with a remote service that
  completes it on capture, and on order O1 with a remote service that rejects.
\<close>

theorem capturePayment_contract_witness:
  "capturePayment (remote_holding order_O6) fresh_world (session_of order_O6)
     = (Inl (Error ''An error occurred in capturePayment''), fresh_world)
   \<and> calls (snd (capturePayment remote_O1 fresh_world (session_of order_O1)))
     = [CaptureAuthorizedPayment (Some ''A1''), GetOrder (Some ''O1'')]
   \<and> fst (capturePayment remote_O1 fresh_world (session_of order_O1))
     = Inr (AList.update ''paypalOrder'' (JOrder order_O1_captured)
              (AList.update ''paypalOrderId'' (JString ''O1'') (session_of order_O1)))
   \<and> fst (capturePayment remote_rejecting fresh_world (session_of order_O1))
     = Inl (Error ''An error occurred in capturePayment'')
   \<and> calls (snd (capturePayment remote_rejecting fresh_world (session_of order_O1)))
     = [CaptureAuthorizedPayment (Some ''A1'')]"
proof -
  have e1: "embeddedOrder (session_of order_O1) = Some order_O1"
    and e6: "embeddedOrder (session_of order_O6) = Some order_O6"
    by (rule embeddedOrder_session_of)+
  have none: "\<nexists>pu pus p auth auths. purchaseUnits order_O6 = Some (pu # pus) \<and> payments pu = Some p
              \<and> authorizations p = Some (auth # auths)"
    by (auto simp: order_O6_def unit_of_def)
  have some: "purchaseUnits order_O1 = Some (unit_of None (Some [auth_A1]) None # [])
      \<and> payments (unit_of None (Some [auth_A1]) None)
           = Some \<lparr>authorizations = Some [auth_A1], captures = None\<rparr>
      \<and> authorizations \<lparr>authorizations = Some [auth_A1], captures = None\<rparr> = Some (auth_A1 # [])"
    by (simp add: order_O1_def unit_of_def)
  have a: "capturePayment (remote_holding order_O6) fresh_world (session_of order_O6)
     = (Inl (Error ''An error occurred in capturePayment''), fresh_world)"
    using capturePayment_contract
            [OF e6, where paypal = "remote_holding order_O6" and w = fresh_world] none
    by blast
  note ok = capturePayment_contract
      [OF e1, where pu = "unit_of None (Some [auth_A1]) None" and pus = "[]"
                 and p = "\<lparr>authorizations = Some [auth_A1], captures = None\<rparr>"
                 and auth = auth_A1 and auths = "[]"
                 and paypal = remote_O1 and w = fresh_world and fetched = order_O1_captured]
  note ko = capturePayment_contract
      [OF e1, where pu = "unit_of None (Some [auth_A1]) None" and pus = "[]"
                 and p = "\<lparr>authorizations = Some [auth_A1], captures = None\<rparr>"
                 and auth = auth_A1 and auths = "[]"
                 and paypal = remote_rejecting and w = fresh_world]
  have b: "calls (snd (capturePayment remote_O1 fresh_world (session_of order_O1)))
     = [CaptureAuthorizedPayment (Some ''A1''), GetOrder (Some ''O1'')]"
    and c: "fst (capturePayment remote_O1 fresh_world (session_of order_O1))
     = Inr (AList.update ''paypalOrder'' (JOrder order_O1_captured)
              (AList.update ''paypalOrderId'' (JString ''O1'') (session_of order_O1)))"
    using ok some
    by (simp_all add: remote_O1_def fresh_world_def auth_A1_def order_O1_def
          order_O1_captured_def truthy_def ofString_def)
  have d: "fst (capturePayment remote_rejecting fresh_world (session_of order_O1))
     = Inl (Error ''An error occurred in capturePayment'')"
    and f: "calls (snd (capturePayment remote_rejecting fresh_world (session_of order_O1)))
     = [CaptureAuthorizedPayment (Some ''A1'')]"
    using ko some
    by (simp_all add: remote_rejecting_def fresh_world_def auth_A1_def)
  show ?thesis
    by (intro conjI a b c d f)
qed

subsection \<open>The options\<close>

text \<open>
  C6 (as amended). The constructor fails with its configuration error exactly when the
  client identifier, the client secret or the environment is absent or empty; otherwise
  it builds the client, for the sandbox when the environment is "sandbox" and for
  production with every other value. \<^verbatim>\<open>validateOptions\<close> fails with a configuration error
  exactly when the client identifier or the client secret is absent or empty or the
  environment is neither "sandbox" nor "production".
\<close>

theorem options_checked:
  "(constructor options = Inl (MedusaError
       ''oAuthClientId, oAuthClientSecret and environment are required in the provider's options.'')
     \<longleftrightarrow> \<not> truthy (oAuthClientId options) \<or> \<not> truthy (oAuthClientSecret options)
          \<or> \<not> truthy (environment options))
   \<and> (constructor options =
         Inr \<lparr>client_oAuthClientId = oAuthClientId options,
              client_oAuthClientSecret = oAuthClientSecret options,
              client_timeout = 0,
              client_environment =
                (if environment options = Some ''sandbox'' then Sandbox else Production)\<rparr>
     \<longleftrightarrow> truthy (oAuthClientId options) \<and> truthy (oAuthClientSecret options)
          \<and> truthy (environment options))
   \<and> ((\<exists>message. validateOptions options = Inl (MedusaError message))
     \<longleftrightarrow> \<not> truthy (oAuthClientId options) \<or> \<not> truthy (oAuthClientSecret options)
          \<or> (environment options \<noteq> Some ''sandbox'' \<and> environment options \<noteq> Some ''production''))
   \<and> (validateOptions options = Inr ()
     \<longleftrightarrow> truthy (oAuthClientId options) \<and> truthy (oAuthClientSecret options)
          \<and> (environment options = Some ''sandbox'' \<or> environment options = Some ''production''))"
  by (auto simp: constructor_def validateOptions_def)

text \<open>
  The theorem on options with the environment "staging" and on options without a secret.
\<close>

theorem options_checked_witness:
  "constructor options_staging =
     Inr \<lparr>client_oAuthClientId = Some ''client'', client_oAuthClientSecret = Some ''secret'',
          client_timeout = 0, client_environment = Production\<rparr>
   \<and> (\<exists>message. validateOptions options_staging = Inl (MedusaError message))
   \<and> constructor options_no_secret = Inl (MedusaError
       ''oAuthClientId, oAuthClientSecret and environment are required in the provider's options.'')
   \<and> (\<exists>message. validateOptions options_no_secret = Inl (MedusaError message))"
  using options_checked [of options_staging] options_checked [of options_no_secret]
  by (simp add: options_staging_def options_no_secret_def truthy_def)

text \<open>
  C6 as stated fails for the constructor: with the environment "staging" it does not
  fail, and builds a client for production.
\<close>

theorem constructor_environment_counterexample:
  "environment options_staging = Some ''staging''
   \<and> constructor options_staging =
     Inr \<lparr>client_oAuthClientId = Some ''client'', client_oAuthClientSecret = Some ''secret'',
          client_timeout = 0, client_environment = Production\<rparr>"
  by (simp add: constructor_def options_staging_def truthy_def)

subsection \<open>The errors of a fetch\<close>

text \<open>
  C8. What \<^verbatim>\<open>retrievePayment\<close> throws when the fetch is rejected with an \<^verbatim>\<open>ApiError\<close> is
  the error "Initialize payment failed", after logging the status code and the headers:
  the very error \<^verbatim>\<open>initiatePayment\<close> throws when the creation is rejected. When the response
  has no identifier it is "Initialize payment failed." with a full stop. Neither names
  the retrieval.
\<close>

theorem retrievePayment_error_is_initiation_error:
  "retrievePayment remote_rejecting fresh_world (session_of order_O1)
     = (Inl (Error ''Initialize payment failed''),
        \<lparr>calls = [GetOrder (Some ''O1'')],
         logs = [LogStatusCode 404, LogHeaders [(''content-type'', ''application/json'')]]\<rparr>)
   \<and> fst (initiatePayment plain_amount remote_rejecting fresh_world initiate_input)
     = Inl (Error ''Initialize payment failed'')
   \<and> fst (retrievePayment (remote_holding order_unidentified) fresh_world (session_of order_O1))
     = Inl (Error ''Initialize payment failed.'')"
  by (simp add: retrievePayment_def initiatePayment_def embeddedOrder_session_of send_def
        logError_def truthy_def remote_rejecting_def remote_holding_def fresh_world_def
        order_O1_def order_unidentified_def)

subsection \<open>The payload that is returned\<close>

lemma returned_shape:
  assumes "fst (retrievePayment paypal w paymentData) = Inr out
         \<or> map_sum id fst (fst (authorizePayment paypal w paymentData)) = Inr out
         \<or> map_sum id snd (fst (initiatePayment convertAmount paypal w paymentData)) = Inr out
         \<or> fst (capturePayment paypal w paymentData) = Inr out
         \<or> fst (cancelPayment paypal w paymentData) = Inr out
         \<or> fst (refundPayment convertAmount paypal w paymentData) = Inr out
         \<or> fst (updatePayment convertAmount paypal w paymentData) = Inr out"
  shows "\<exists>fetched history c. paypal history c = Inr fetched \<and> truthy (order_id fetched)
           \<and> map_of out = (map_of paymentData)(''paypalOrderId'' \<mapsto> ofString (order_id fetched),
                                               ''paypalOrder'' \<mapsto> JOrder fetched)"
proof -
  consider
      (retrieve) w1 where "fst (retrievePayment paypal w1 paymentData) = Inr out"
    | (authorize) st where "fst (authorizePayment paypal w paymentData) = Inr (out, st)"
    | (initiate) i where "fst (initiatePayment convertAmount paypal w paymentData) = Inr (i, out)"
  proof -
    from assms show ?thesis
    proof (elim disjE)
      assume "fst (retrievePayment paypal w paymentData) = Inr out"
      then show ?thesis by (rule retrieve)
    next
      assume "map_sum id fst (fst (authorizePayment paypal w paymentData)) = Inr out"
      then obtain st where "fst (authorizePayment paypal w paymentData) = Inr (out, st)"
        by (cases "fst (authorizePayment paypal w paymentData)") auto
      then show ?thesis by (rule authorize)
    next
      assume "map_sum id snd (fst (initiatePayment convertAmount paypal w paymentData)) = Inr out"
      then obtain i where "fst (initiatePayment convertAmount paypal w paymentData) = Inr (i, out)"
        by (cases "fst (initiatePayment convertAmount paypal w paymentData)") auto
      then show ?thesis by (rule initiate)
    next
      assume "fst (capturePayment paypal w paymentData) = Inr out"
      from capturePayment_InrD [OF this] show ?thesis using retrieve by blast
    next
      assume "fst (cancelPayment paypal w paymentData) = Inr out"
      from cancelPayment_InrD [OF this] show ?thesis using retrieve by blast
    next
      assume "fst (refundPayment convertAmount paypal w paymentData) = Inr out"
      from refundPayment_InrD [OF this] show ?thesis using retrieve by blast
    next
      assume "fst (updatePayment convertAmount paypal w paymentData) = Inr out"
      from updatePayment_InrD [OF this] show ?thesis using retrieve by blast
    qed
  qed
  then show ?thesis
  proof cases
    case retrieve
    then show ?thesis by (rule retrievePayment_shape)
  next
    case authorize
    then show ?thesis by (rule authorizePayment_shape)
  next
    case initiate
    then show ?thesis by (rule initiatePayment_shape)
  qed
qed

lemma retrieve_O1:
  "fst (retrievePayment (remote_holding order_O1_captured) fresh_world (session_of order_O1))
     = Inr session_O1_refreshed"
  by (simp add: retrievePayment_def embeddedOrder_session_of send_def remote_holding_def
        truthy_def ofString_def order_O1_captured_def)
     (simp add: session_of_def session_O1_refreshed_def order_O1_captured_def)

lemma authorize_O1:
  "fst (authorizePayment (remote_holding order_O1_captured) fresh_world (session_of order_O1))
     = Inr (session_O1_authorized, authorized)"
  by (simp add: authorizePayment_def getPaymentStatus_def retrievePayment_def
        embeddedOrder_session_of paypalOrderOf_update send_def remote_holding_def
        truthy_def ofString_def order_O1_captured_def)
     (simp add: session_of_def session_O1_authorized_def order_O1_captured_def)

lemma initiate_O1:
  "fst (initiatePayment plain_amount (remote_holding order_O1) fresh_world initiate_input)
     = Inr (''O1'', session_O1_initiated)"
  by (simp add: initiatePayment_def send_def remote_holding_def order_O1_def
        initiate_input_def session_O1_initiated_def)

text \<open>
  C7. The payload returned is not the session payload of the input with the keys
  \<^verbatim>\<open>paypalOrder\<close> and \<^verbatim>\<open>paypalOrderId\<close> updated. On the session of order O1, whose payload
  has the key \<^verbatim>\<open>cart\<close> and no key \<^verbatim>\<open>data\<close> or \<^verbatim>\<open>context\<close>, \<^verbatim>\<open>retrievePayment\<close> and
  \<^verbatim>\<open>authorizePayment\<close> return a payload without the key \<^verbatim>\<open>cart\<close> and with the keys \<^verbatim>\<open>data\<close>,
  which holds the old payload, and \<^verbatim>\<open>context\<close>. A second fetch, on the payload of the
  first, puts that payload under \<^verbatim>\<open>data\<close> in turn, the first one now two levels down.
  \<^verbatim>\<open>deletePayment\<close>, on the same input, gives the session payload back as it was.
\<close>

theorem retrievePayment_nests_session_payload:
  "map_of (session_of order_O1) ''data'' = Some (JObject (payload_of order_O1))
   \<and> map_of (payload_of order_O1) ''cart'' = Some (JString ''cart_01'')
   \<and> map_of (payload_of order_O1) ''data'' = None
   \<and> map_of (payload_of order_O1) ''context'' = None
   \<and> fst (retrievePayment (remote_holding order_O1_captured) fresh_world (session_of order_O1))
       = Inr session_O1_refreshed
   \<and> map_of session_O1_refreshed ''cart'' = None
   \<and> map_of session_O1_refreshed ''data'' = Some (JObject (payload_of order_O1))
   \<and> map_of session_O1_refreshed ''context'' = Some (JObject [])
   \<and> fst (authorizePayment (remote_holding order_O1_captured) fresh_world (session_of order_O1))
       = Inr (session_O1_authorized, authorized)
   \<and> map_of session_O1_authorized ''cart'' = None
   \<and> map_of session_O1_authorized ''data'' = Some (JObject (payload_of order_O1))
   \<and> map_of session_O1_next ''data'' = Some (JObject session_O1_refreshed)
   \<and> fst (retrievePayment (remote_holding order_O1_captured) fresh_world session_O1_next)
       = Inr session_O1_refreshed_twice
   \<and> map_of session_O1_refreshed_twice ''data'' = Some (JObject session_O1_refreshed)
   \<and> map_of (deletePayment (session_of order_O1)) ''data''
       = Some (JObject (payload_of order_O1))"
proof -
  have first: "map_of (session_of order_O1) ''data'' = Some (JObject (payload_of order_O1))"
    "map_of (payload_of order_O1) ''cart'' = Some (JString ''cart_01'')"
    "map_of (payload_of order_O1) ''data'' = None"
    "map_of (payload_of order_O1) ''context'' = None"
    by (simp_all add: session_of_def payload_of_def)
  have refreshed: "map_of session_O1_refreshed ''cart'' = None"
    "map_of session_O1_refreshed ''data'' = Some (JObject (payload_of order_O1))"
    "map_of session_O1_refreshed ''context'' = Some (JObject [])"
    by (simp_all add: session_O1_refreshed_def)
  have authorized: "map_of session_O1_authorized ''cart'' = None"
    "map_of session_O1_authorized ''data'' = Some (JObject (payload_of order_O1))"
    by (simp_all add: session_O1_authorized_def)
  have next_input: "map_of session_O1_next ''data'' = Some (JObject session_O1_refreshed)"
    by (simp add: session_O1_next_def)
  have e: "embeddedOrder session_O1_next = Some order_O1_captured"
    by (simp add: embeddedOrder_def paypalOrderOf_def session_O1_next_def session_O1_refreshed_def)
  have "retrievePayment (remote_holding order_O1_captured) fresh_world session_O1_next
          = (Inr (AList.update ''paypalOrder'' (JOrder order_O1_captured)
                    (AList.update ''paypalOrderId'' (ofString (order_id order_O1_captured))
                       session_O1_next)),
             fresh_world\<lparr>calls := calls fresh_world @ [GetOrder (order_id order_O1_captured)]\<rparr>)"
    using e by (rule retrievePayment_fetched)
               (simp_all add: remote_holding_def truthy_def order_O1_captured_def)
  then have second:
    "fst (retrievePayment (remote_holding order_O1_captured) fresh_world session_O1_next)
       = Inr session_O1_refreshed_twice"
    by (simp add: session_O1_next_def session_O1_refreshed_twice_def ofString_def
          order_O1_captured_def)
  have twice: "map_of session_O1_refreshed_twice ''data'' = Some (JObject session_O1_refreshed)"
    by (simp add: session_O1_refreshed_twice_def)
  have deleted: "map_of (deletePayment (session_of order_O1)) ''data''
                   = Some (JObject (payload_of order_O1))"
    by (simp add: deletePayment_def session_of_def)
  show ?thesis
    by (intro conjI first retrieve_O1 refreshed authorize_O1 authorized next_input second twice
          deleted)
qed

text \<open>
  C10. The payload an operation returns on success (\<^verbatim>\<open>initiatePayment\<close>, \<^verbatim>\<open>retrievePayment\<close>,
  \<^verbatim>\<open>authorizePayment\<close>, and the operations that return the result of \<^verbatim>\<open>retrievePayment\<close>)
  embeds an order whose identifier is present and not empty, its \<^verbatim>\<open>paypalOrderId\<close> is that
  identifier, and the order is a response of the remote service.
\<close>

theorem payload_embeds_identified_order:
  assumes "fst (retrievePayment paypal w paymentData) = Inr out
         \<or> map_sum id fst (fst (authorizePayment paypal w paymentData)) = Inr out
         \<or> map_sum id snd (fst (initiatePayment convertAmount paypal w paymentData)) = Inr out
         \<or> fst (capturePayment paypal w paymentData) = Inr out
         \<or> fst (cancelPayment paypal w paymentData) = Inr out
         \<or> fst (refundPayment convertAmount paypal w paymentData) = Inr out
         \<or> fst (updatePayment convertAmount paypal w paymentData) = Inr out"
  shows "\<exists>fetched i. paypalOrderOf out = Some fetched
           \<and> order_id fetched = Some i \<and> i \<noteq> []
           \<and> map_of out ''paypalOrderId'' = Some (JString i)
           \<and> (\<exists>history c. paypal history c = Inr fetched)"
proof -
  from returned_shape [OF assms] obtain fetched history c where
    f: "paypal history c = Inr fetched" and t: "truthy (order_id fetched)"
    and m: "map_of out = (map_of paymentData)(''paypalOrderId'' \<mapsto> ofString (order_id fetched),
                                      ''paypalOrder'' \<mapsto> JOrder fetched)"
    by blast
  from t obtain i where i: "order_id fetched = Some i" "i \<noteq> []"
    by (auto simp: truthy_def split: option.splits)
  from m have "paypalOrderOf out = Some fetched"
    by (simp add: paypalOrderOf_def)
  moreover from m i have "map_of out ''paypalOrderId'' = Some (JString i)"
    by (simp add: ofString_def)
  ultimately show ?thesis
    using i f by blast
qed

text \<open>
  The theorem on the creation of order O1 and on a fetch of it once captured.
\<close>

theorem payload_embeds_identified_order_witness:
  "map_sum id snd
      (fst (initiatePayment plain_amount (remote_holding order_O1) fresh_world initiate_input))
     = Inr session_O1_initiated
   \<and> (\<exists>fetched i. paypalOrderOf session_O1_initiated = Some fetched
           \<and> order_id fetched = Some i \<and> i \<noteq> []
           \<and> map_of session_O1_initiated ''paypalOrderId'' = Some (JString i)
           \<and> (\<exists>history c. remote_holding order_O1 history c = Inr fetched))
   \<and> paypalOrderOf session_O1_initiated = Some order_O1
   \<and> fst (retrievePayment (remote_holding order_O1_captured) fresh_world (session_of order_O1))
     = Inr session_O1_refreshed
   \<and> (\<exists>fetched i. paypalOrderOf session_O1_refreshed = Some fetched
           \<and> order_id fetched = Some i \<and> i \<noteq> []
           \<and> map_of session_O1_refreshed ''paypalOrderId'' = Some (JString i)
           \<and> (\<exists>history c. remote_holding order_O1_captured history c = Inr fetched))
   \<and> paypalOrderOf session_O1_refreshed = Some order_O1_captured"
proof -
  have i: "map_sum id snd
      (fst (initiatePayment plain_amount (remote_holding order_O1) fresh_world initiate_input))
     = Inr session_O1_initiated"
    by (simp add: initiate_O1)
  have p: "paypalOrderOf session_O1_initiated = Some order_O1"
    "paypalOrderOf session_O1_refreshed = Some order_O1_captured"
    by (simp_all add: paypalOrderOf_def session_O1_initiated_def session_O1_refreshed_def)
  show ?thesis
    by (intro conjI i p retrieve_O1
          payload_embeds_identified_order
            [where convertAmount = plain_amount and w = fresh_world
               and paymentData = initiate_input, OF disjI2, OF disjI2, OF disjI1, OF i]
          payload_embeds_identified_order
            [where convertAmount = plain_amount, OF disjI1, OF retrieve_O1])
qed

end
